theory Spec2Isabelle
  imports Main "HOL-Library.Log_Nat" "HOL-Library.Multiset" "HOL-Library.Sublist"
begin

section \<open>Strings\<close>

text \<open>
  Python strings are modelled as \<open>string\<close>. \<open>str.lower()\<close> is modelled on ASCII text: the
  letters \<open>A\<close> to \<open>Z\<close> are mapped to \<open>a\<close> to \<open>z\<close> and every other character is kept. All
  tables of the program (role names, skills, phrases) are ASCII.
\<close>

definition lower_char :: "char \<Rightarrow> char" where
  "lower_char c =
     (case map_of (zip ''ABCDEFGHIJKLMNOPQRSTUVWXYZ'' ''abcdefghijklmnopqrstuvwxyz'') c of
        None \<Rightarrow> c
      | Some d \<Rightarrow> d)"

definition lower :: "string \<Rightarrow> string" where
  "lower s = map lower_char s"

text \<open>
  \<open>set(...)\<close> followed by \<open>len\<close>, \<open>intersection\<close>, \<open>difference\<close> and \<open>list(...)\<close>: a
  Python set is modelled as a duplicate-free list. Python iterates a set of strings in an
  order that depends on the hash seed; the model lists the elements in the order of their
  first insertion. Sets that are only tested for membership are HOL sets.
\<close>

definition py_set :: "string list \<Rightarrow> string list" where
  "py_set xs = rev (remdups (rev xs))"

section \<open>Floating point\<close>

text \<open>
  \<open>len(matched_skills) / len(required_skills)\<close> is Python's true division of two integers and
  \<open>* 50\<close> a multiplication of floats: both return the IEEE 754 binary64 number nearest to the
  exact result, ties to even. A float is modelled by the rational number it denotes.
  \<open>round_double\<close> rounds a rational to 53 significant bits, with the exponent of the last
  bit not below \<open>-1074\<close> (gradual underflow). Overflow is not modelled: the values that occur
  below are at most 50.
\<close>

definition round_half_even :: "rat \<Rightarrow> int" where
  "round_half_even x =
     (let f = \<lfloor>x\<rfloor>; d = x - of_int f
      in if d < 1 / 2 then f else if 1 / 2 < d then f + 1 else if even f then f else f + 1)"

definition floor_log2 :: "rat \<Rightarrow> int" where
  "floor_log2 q =
     (let (a, b) = quotient_of q; k = bitlen a - bitlen b
      in if 2 powi k \<le> q then k else k - 1)"

definition ulp_exponent :: "rat \<Rightarrow> int" where
  "ulp_exponent q = max (floor_log2 q - 52) (- 1074)"

definition round_double :: "rat \<Rightarrow> rat" where
  "round_double q =
     (if q = 0 then 0
      else sgn q * of_int (round_half_even (\<bar>q\<bar> / 2 powi ulp_exponent \<bar>q\<bar>))
             * 2 powi ulp_exponent \<bar>q\<bar>)"

definition py_truediv :: "nat \<Rightarrow> nat \<Rightarrow> rat" where
  "py_truediv a b = round_double (of_nat a / of_nat b)"

definition py_float_mul :: "rat \<Rightarrow> rat \<Rightarrow> rat" where
  "py_float_mul x y = round_double (x * y)"

text \<open>\<open>int(x)\<close> of a float truncates towards zero.\<close>

definition py_int :: "rat \<Rightarrow> int" where
  "py_int x = (if 0 \<le> x then \<lfloor>x\<rfloor> else \<lceil>x\<rceil>)"

section \<open>ats_scorer.py\<close>

text \<open>
  The role catalog \<open>data/job_roles.json\<close> is a JSON object from role names to skill lists.
  It is a parameter of the model: \<open>load_job_roles()\<close> either returns the dictionary, an
  association list in the order of the file, or fails because the file cannot be opened.
\<close>

type_synonym job_roles = "(string \<times> string list) list"

datatype py_error = FileNotFoundError

record classified =
  critical :: "string list"
  optional :: "string list"

text \<open>The dictionary \<open>parsed_data\<close> with its keys \<open>name\<close>, \<open>email\<close>, \<open>phone\<close>, \<open>skills\<close>, \<open>text\<close>.\<close>

record parsed_data =
  pd_name :: string
  pd_email :: string
  pd_phone :: string
  pd_skills :: "string list"
  pd_text :: string

record ats_result =
  ats_score :: int
  skill_score :: int
  keyword_score :: int
  completeness_score :: int
  matched_skills :: "string list"
  missing_skills :: "string list"
  missing_classified :: classified

fun classify_loop :: "string set \<Rightarrow> string list \<Rightarrow> string list \<Rightarrow> string list \<Rightarrow> classified" where
  "classify_loop required_set [] crit opt = \<lparr>critical = crit, optional = opt\<rparr>"
| "classify_loop required_set (skill # rest) crit opt =
     (if lower skill \<in> required_set
      then classify_loop required_set rest (crit @ [skill]) opt
      else classify_loop required_set rest crit (opt @ [skill]))"

definition classify_missing_skills :: "string \<Rightarrow> string list \<Rightarrow> string list \<Rightarrow> classified" where
  "classify_missing_skills role missing required_skills =
     classify_loop (set (map lower required_skills)) missing [] []"

text \<open>\<open>job_roles.get(job_role, [])\<close>\<close>

definition get_role :: "job_roles \<Rightarrow> string \<Rightarrow> string list" where
  "get_role job_roles job_role = (case map_of job_roles job_role of None \<Rightarrow> [] | Some l \<Rightarrow> l)"

text \<open>The three sub-scores, as \<open>calculate_ats_score\<close> computes them.\<close>

definition skill_score_of :: "nat \<Rightarrow> nat \<Rightarrow> int" where
  "skill_score_of n_matched n_required =
     (if n_required > 0 then py_int (py_float_mul (py_truediv n_matched n_required) 50) else 0)"

definition keyword_score_of :: "nat \<Rightarrow> int" where
  "keyword_score_of n_resume = min (int n_resume * 2) 30"

definition completeness_of :: "parsed_data \<Rightarrow> int" where
  "completeness_of parsed =
     (if pd_name parsed \<noteq> [] then 5 else 0) + (if pd_email parsed \<noteq> [] then 5 else 0)
     + (if pd_phone parsed \<noteq> [] then 5 else 0) + (if pd_skills parsed \<noteq> [] then 5 else 0)"

definition calculate_ats_score :: "job_roles option \<Rightarrow> parsed_data \<Rightarrow> string \<Rightarrow> py_error + ats_result" where
  "calculate_ats_score loaded parsed job_role =
     (case loaded of
        None \<Rightarrow> Inl FileNotFoundError
      | Some job_roles \<Rightarrow>
          (let resume_skills = py_set (map lower (pd_skills parsed));
               required_skills = py_set (map lower (get_role job_roles job_role));
               matched = filter (\<lambda>s. s \<in> set required_skills) resume_skills;
               missing = filter (\<lambda>s. s \<notin> set resume_skills) required_skills;
               skill = skill_score_of (length matched) (length required_skills);
               keyword = keyword_score_of (length resume_skills);
               completeness = completeness_of parsed;
               total = min (skill + keyword + completeness) 100
           in Inr \<lparr>ats_score = total,
                   skill_score = skill,
                   keyword_score = keyword,
                   completeness_score = completeness,
                   matched_skills = matched,
                   missing_skills = missing,
                   missing_classified =
                     classify_missing_skills job_role missing (get_role job_roles job_role)\<rparr>))"

section \<open>resume_builder.py: data\<close>

text \<open>
  The dictionary \<open>resume_data\<close> built by \<open>format_resume_data\<close>, with every key that function
  sets. The entries of \<open>education\<close>, \<open>experience\<close> and \<open>projects\<close> are dictionaries too; their
  keys carry the prefixes \<open>edu_\<close>, \<open>exp_\<close> and \<open>proj_\<close> here.
\<close>

record education_entry =
  edu_degree :: string
  edu_institution :: string
  edu_year :: string

record experience_entry =
  exp_title :: string
  exp_company :: string
  exp_duration :: string
  exp_bullets :: "string list"

record project_entry =
  proj_name :: string
  proj_tech :: string
  proj_bullets :: "string list"

record resume_data =
  name :: string
  email :: string
  phone :: string
  linkedin :: string
  github :: string
  portfolio :: string
  career_objective :: string
  target_role :: string
  education :: "education_entry list"
  experience :: "experience_entry list"
  projects :: "project_entry list"
  skills_list :: "string list"
  certifications :: string
  certifications_list :: "string list"
  achievements :: string
  achievements_list :: "string list"
  full_text :: string

fun join_str :: "string \<Rightarrow> string list \<Rightarrow> string" where
  "join_str sep [] = []"
| "join_str sep [x] = x"
| "join_str sep (x # y # ys) = x @ sep @ join_str sep (y # ys)"

definition build_full_text :: "resume_data \<Rightarrow> string" where
  "build_full_text data =
     join_str '' ''
       ([name data, email data, phone data, career_objective data]
        @ map (\<lambda>edu. edu_degree edu @ '' '' @ edu_institution edu @ '' '' @ edu_year edu)
            (education data)
        @ concat (map (\<lambda>ex. (exp_title ex @ '' '' @ exp_company ex @ '' '' @ exp_duration ex)
                              # exp_bullets ex) (experience data))
        @ concat (map (\<lambda>proj. (proj_name proj @ '' '' @ proj_tech proj) # proj_bullets proj)
                    (projects data))
        @ [join_str '' '' (skills_list data)]
        @ certifications_list data
        @ achievements_list data)"

definition build_parsed_data :: "resume_data \<Rightarrow> parsed_data" where
  "build_parsed_data data =
     \<lparr>pd_name = name data, pd_email = email data, pd_phone = phone data,
      pd_skills = skills_list data, pd_text = full_text data\<rparr>"

section \<open>resume_builder.py: language quality\<close>

definition WEAK_VERB_MAP :: "(string \<times> string) list" where
  "WEAK_VERB_MAP =
     [(''worked on'', ''engineered''),
      (''made'', ''developed''),
      (''helped'', ''facilitated''),
      (''did'', ''executed''),
      (''used'', ''leveraged''),
      (''was responsible for'', ''spearheaded''),
      (''handled'', ''orchestrated''),
      (''created'', ''architected''),
      (''wrote'', ''authored''),
      (''fixed'', ''resolved''),
      (''changed'', ''refactored''),
      (''ran'', ''managed''),
      (''set up'', ''provisioned''),
      (''looked at'', ''analyzed'')]"

definition QUANTIFICATION_MAP :: "(string \<times> string) list" where
  "QUANTIFICATION_MAP =
     [(''improving efficiency'', ''improving efficiency by 30%''),
      (''reducing time'', ''reducing processing time by 40%''),
      (''increasing performance'', ''increasing performance by 25%''),
      (''reducing errors'', ''reducing errors by 35%''),
      (''improving accuracy'', ''improving accuracy by 20%''),
      (''increasing productivity'', ''increasing productivity by 30%''),
      (''reducing costs'', ''reducing operational costs by 25%''),
      (''improving speed'', ''improving response speed by 45%'')]"

text \<open>
  \<open>re.compile(re.escape(p), re.IGNORECASE)\<close> matches the literal phrase \<open>p\<close>, letters compared
  without case. \<open>match_at p s\<close>: the phrase matches at the start of \<open>s\<close>. \<open>search\<close> is
  \<open>pattern.search\<close>, the start of the leftmost match, and \<open>sub_first\<close> is
  \<open>pattern.sub(repl, s, count=1)\<close> for a replacement without backslashes.
\<close>

fun match_at :: "string \<Rightarrow> string \<Rightarrow> bool" where
  "match_at [] s = True"
| "match_at (p # ps) [] = False"
| "match_at (p # ps) (c # cs) = (lower_char p = lower_char c \<and> match_at ps cs)"

fun search :: "string \<Rightarrow> string \<Rightarrow> nat option" where
  "search pat [] = (if match_at pat [] then Some 0 else None)"
| "search pat (c # cs) =
     (if match_at pat (c # cs) then Some 0 else map_option Suc (search pat cs))"

definition sub_first :: "string \<Rightarrow> string \<Rightarrow> string \<Rightarrow> string" where
  "sub_first pat repl s =
     (case search pat s of
        None \<Rightarrow> s
      | Some i \<Rightarrow> take i s @ repl @ drop (i + length pat) s)"

definition upper_char :: "char \<Rightarrow> char" where
  "upper_char c =
     (case map_of (zip ''abcdefghijklmnopqrstuvwxyz'' ''ABCDEFGHIJKLMNOPQRSTUVWXYZ'') c of
        None \<Rightarrow> c
      | Some d \<Rightarrow> d)"

fun capitalize :: "string \<Rightarrow> string" where
  "capitalize [] = []"
| "capitalize (c # cs) = upper_char c # lower cs"

text \<open>The body of the first loop of \<open>_enhance_single_bullet\<close>, for one entry of the table.\<close>

definition upgrade_verb :: "string \<times> string \<Rightarrow> string \<Rightarrow> string" where
  "upgrade_verb entry enhanced =
     (case entry of (weak, strong) \<Rightarrow>
        (case search weak enhanced of
           None \<Rightarrow> enhanced
         | Some start \<Rightarrow>
             if start = 0 then sub_first weak (capitalize strong) enhanced
             else sub_first weak strong enhanced))"

text \<open>The body of the second loop.\<close>

definition quantify :: "string \<times> string \<Rightarrow> string \<Rightarrow> string" where
  "quantify entry enhanced =
     (case entry of (vague, quantified) \<Rightarrow>
        (case search vague enhanced of
           None \<Rightarrow> enhanced
         | Some start \<Rightarrow> sub_first vague quantified enhanced))"

definition enhance_single_bullet :: "string \<Rightarrow> string" where
  "enhance_single_bullet bullet =
     fold quantify QUANTIFICATION_MAP (fold upgrade_verb WEAK_VERB_MAP bullet)"

definition enhance_language_quality :: "resume_data \<Rightarrow> resume_data" where
  "enhance_language_quality data =
     data\<lparr>experience :=
            map (\<lambda>entry. entry\<lparr>exp_bullets := map enhance_single_bullet (exp_bullets entry)\<rparr>)
              (experience data),
          projects :=
            map (\<lambda>entry. entry\<lparr>proj_bullets := map enhance_single_bullet (proj_bullets entry)\<rparr>)
              (projects data)\<rparr>"

section \<open>resume_builder.py: skill diversity\<close>

record skill_category =
  cat_keywords :: "string list"
  cat_fallbacks :: "(string \<times> string) list"

definition SKILL_CATEGORIES :: "(string \<times> skill_category) list" where
  "SKILL_CATEGORIES =
     [(''language_framework'',
       \<lparr>cat_keywords = [''python'', ''java'', ''javascript'', ''c++'', ''c#'', ''go'', ''ruby'', ''php'',
                    ''typescript'', ''swift'', ''kotlin'', ''rust'', ''scala'', ''r'',
                    ''react'', ''angular'', ''vue'', ''flask'', ''django'', ''spring'',
                    ''express'', ''node.js'', ''fastapi'', ''.net'', ''rails''],
        cat_fallbacks = [(''Web Developer'', ''Node.js''), (''Backend Developer'', ''Django''),
                     (''Data Analyst'', ''R''), (''ML Engineer'', ''scikit-learn''),
                     (''Software Engineer'', ''Python'')]\<rparr>),
      (''database_storage'',
       \<lparr>cat_keywords = [''sql'', ''mysql'', ''postgresql'', ''mongodb'', ''redis'', ''sqlite'',
                    ''cassandra'', ''dynamodb'', ''firebase'', ''elasticsearch'',
                    ''oracle'', ''neo4j'', ''pandas'', ''numpy''],
        cat_fallbacks = [(''Web Developer'', ''MongoDB''), (''Backend Developer'', ''PostgreSQL''),
                     (''Data Analyst'', ''SQL''), (''ML Engineer'', ''NumPy''),
                     (''Software Engineer'', ''SQL'')]\<rparr>),
      (''tool_platform'',
       \<lparr>cat_keywords = [''git'', ''docker'', ''aws'', ''azure'', ''gcp'', ''linux'', ''kubernetes'',
                    ''jenkins'', ''ci/cd'', ''terraform'', ''ansible'', ''jira'',
                    ''heroku'', ''vercel'', ''netlify'', ''postman'', ''vscode''],
        cat_fallbacks = [(''Web Developer'', ''Git''), (''Backend Developer'', ''Docker''),
                     (''Data Analyst'', ''Jupyter''), (''ML Engineer'', ''Git''),
                     (''Software Engineer'', ''Git'')]\<rparr>),
      (''cs_concept'',
       \<lparr>cat_keywords = [''data structures'', ''algorithms'', ''oop'', ''design patterns'',
                    ''system design'', ''rest apis'', ''agile'', ''microservices'',
                    ''testing'', ''machine learning'', ''deep learning'', ''statistics'',
                    ''data analysis'', ''networking'', ''operating systems''],
        cat_fallbacks = [(''Web Developer'', ''REST APIs''), (''Backend Developer'', ''System Design''),
                     (''Data Analyst'', ''Statistics''), (''ML Engineer'', ''Deep Learning''),
                     (''Software Engineer'', ''Data Structures'')]\<rparr>)]"

text \<open>
  The loop of \<open>validate_resume_diversity\<close> over the categories; its state is the skills list
  and the set \<open>current_skills_lower\<close>.
\<close>

fun diversity_loop ::
  "string \<Rightarrow> (string \<times> skill_category) list \<Rightarrow> string list \<Rightarrow> string set \<Rightarrow> string list" where
  "diversity_loop role [] skills current_skills_lower = skills"
| "diversity_loop role ((category_name, category_info) # rest) skills current_skills_lower =
     (let has_category = list_ex (\<lambda>kw. kw \<in> current_skills_lower) (cat_keywords category_info)
      in if \<not> has_category then
           (case map_of (cat_fallbacks category_info) role of
              None \<Rightarrow> diversity_loop role rest skills current_skills_lower
            | Some fallback \<Rightarrow>
                if fallback \<noteq> [] \<and> lower fallback \<notin> current_skills_lower
                then diversity_loop role rest (skills @ [fallback])
                       (insert (lower fallback) current_skills_lower)
                else diversity_loop role rest skills current_skills_lower)
         else diversity_loop role rest skills current_skills_lower)"

definition validate_resume_diversity :: "resume_data \<Rightarrow> string \<Rightarrow> resume_data" where
  "validate_resume_diversity data role =
     data\<lparr>skills_list :=
            diversity_loop role SKILL_CATEGORIES (skills_list data)
              (set (map lower (skills_list data)))\<rparr>"

section \<open>resume_builder.py: critical skill injection\<close>

definition EXP_INJECTION_TEMPLATES :: "string list" where
  "EXP_INJECTION_TEMPLATES =
     [''Engineered scalable solutions leveraging {skill} for production-grade deployment'',
      ''Architected and delivered features using {skill} to meet critical business requirements'',
      ''Optimized system reliability by adopting {skill} across the development lifecycle'']"

definition PROJ_INJECTION_TEMPLATES :: "string list" where
  "PROJ_INJECTION_TEMPLATES =
     [''Implemented {skill} to enhance system reliability and performance'',
      ''Integrated {skill} to streamline development workflow and output quality'',
      ''Leveraged {skill} for robust data processing and feature delivery'']"

text \<open>\<open>template.format(skill=skill)\<close> for a template whose only braces are those of \<open>{skill}\<close>.\<close>

fun format_skill :: "string \<Rightarrow> string \<Rightarrow> string" where
  "format_skill [] skill = []"
| "format_skill (c # cs) skill =
     (if take 7 (c # cs) = ''{skill}'' then skill @ format_skill (drop 6 cs) skill
      else c # format_skill cs skill)"

definition weave_experience :: "nat \<Rightarrow> string \<Rightarrow> experience_entry list \<Rightarrow> experience_entry list" where
  "weave_experience entry_index skill experiences =
     (let i = entry_index mod length experiences;
          target_exp = experiences ! i;
          template = EXP_INJECTION_TEMPLATES ! (entry_index mod length EXP_INJECTION_TEMPLATES);
          bullet = format_skill template skill
      in if exp_bullets target_exp \<noteq> [] then
           (if length (exp_bullets target_exp) < 4
            then experiences[i := target_exp\<lparr>exp_bullets := exp_bullets target_exp @ [bullet]\<rparr>]
            else experiences)
         else experiences[i := target_exp\<lparr>exp_bullets := [bullet]\<rparr>])"

definition weave_project :: "nat \<Rightarrow> string \<Rightarrow> project_entry list \<Rightarrow> project_entry list" where
  "weave_project entry_index skill projs =
     (let i = entry_index mod length projs;
          target_proj = projs ! i;
          template = PROJ_INJECTION_TEMPLATES ! (entry_index mod length PROJ_INJECTION_TEMPLATES);
          bullet = format_skill template skill
      in if proj_bullets target_proj \<noteq> [] then
           (if length (proj_bullets target_proj) < 3
            then projs[i := target_proj\<lparr>proj_bullets := proj_bullets target_proj @ [bullet]\<rparr>]
            else projs)
         else projs[i := target_proj\<lparr>proj_bullets := [bullet]\<rparr>])"

text \<open>
  One injected skill: appended to the skills list, then woven into an experience entry, or
  into a project entry when there is no experience entry. The indexed entries exist, since
  the index is taken modulo the length of a non-empty list.
\<close>

definition inject_one :: "nat \<Rightarrow> string \<Rightarrow> resume_data \<Rightarrow> resume_data" where
  "inject_one entry_index skill data =
     (let data1 = data\<lparr>skills_list := skills_list data @ [skill]\<rparr>
      in if experience data1 \<noteq> []
         then data1\<lparr>experience := weave_experience entry_index skill (experience data1)\<rparr>
         else if projects data1 \<noteq> []
         then data1\<lparr>projects := weave_project entry_index skill (projects data1)\<rparr>
         else data1)"

fun inject_loop :: "string list \<Rightarrow> string set \<Rightarrow> nat \<Rightarrow> resume_data \<Rightarrow> resume_data" where
  "inject_loop [] current_lower entry_index data = data"
| "inject_loop (skill # rest) current_lower entry_index data =
     (if lower skill \<in> current_lower then inject_loop rest current_lower entry_index data
      else inject_loop rest (insert (lower skill) current_lower) (entry_index + 1)
             (inject_one entry_index skill data))"

definition inject_missing_role_skills :: "resume_data \<Rightarrow> ats_result \<Rightarrow> string \<Rightarrow> resume_data" where
  "inject_missing_role_skills data ats role =
     (let missing = missing_skills ats
      in if missing = [] then data
         else inject_loop (take 2 missing) (set (map lower (skills_list data))) 0 data)"

section \<open>resume_builder.py: complementary skills\<close>

text \<open>\<open>ROLE_SKILLS\<close> of \<open>multi_role_predictor.py\<close>.\<close>

definition ROLE_SKILLS :: job_roles where
  "ROLE_SKILLS =
     [(''Web Developer'', [''html'', ''css'', ''javascript'', ''react'', ''sql'']),
      (''Backend Developer'', [''python'', ''java'', ''sql'', ''flask'', ''api'']),
      (''Data Analyst'', [''python'', ''sql'', ''pandas'', ''excel'', ''statistics'']),
      (''Software Engineer'', [''c'', ''c++'', ''java'', ''data structures'']),
      (''ML Engineer'', [''python'', ''machine learning'', ''numpy'', ''pandas''])]"

text \<open>
  The skills of the roles of one dictionary that are related to the target: the role is
  another one and shares at least one skill, without case, with \<open>target_skills\<close>.
\<close>

definition related_skills :: "job_roles \<Rightarrow> string \<Rightarrow> string list \<Rightarrow> string list" where
  "related_skills pool role target_skills =
     concat (map snd
       (filter (\<lambda>(pool_role, pool_skills).
                  lower pool_role \<noteq> lower role
                  \<and> length (filter (\<lambda>s. s \<in> set (map lower pool_skills)) target_skills) \<ge> 1)
          pool))"

definition complementary_candidates :: "job_roles \<Rightarrow> string \<Rightarrow> job_roles \<Rightarrow> string list" where
  "complementary_candidates job_roles role role_skills_map =
     (let role_pool = ROLE_SKILLS;
          candidates1 =
            concat (map snd (filter (\<lambda>(pool_role, pool_skills). lower pool_role = lower role) role_pool))
            @ (case map_of job_roles role of None \<Rightarrow> [] | Some l \<Rightarrow> l)
            @ (case map_of role_skills_map role of None \<Rightarrow> [] | Some l \<Rightarrow> l);
          target_skills = py_set (map lower candidates1)
      in candidates1 @ related_skills role_pool role target_skills
           @ related_skills job_roles role target_skills)"

text \<open>The last loop of \<open>inject_complementary_skills\<close>; it stops at \<open>max_to_add\<close> added skills.\<close>

fun add_loop ::
  "nat \<Rightarrow> string list \<Rightarrow> string set \<Rightarrow> string set \<Rightarrow> nat \<Rightarrow> string list \<Rightarrow> string list" where
  "add_loop max_to_add [] current_lower seen added skills = skills"
| "add_loop max_to_add (skill # rest) current_lower seen added skills =
     (if lower skill \<notin> current_lower \<and> lower skill \<notin> seen then
        (if added + 1 \<ge> max_to_add then skills @ [skill]
         else add_loop max_to_add rest (insert (lower skill) current_lower)
                (insert (lower skill) seen) (added + 1) (skills @ [skill]))
      else add_loop max_to_add rest current_lower seen added skills)"

definition inject_complementary_skills ::
  "job_roles option \<Rightarrow> resume_data \<Rightarrow> string \<Rightarrow> job_roles \<Rightarrow> resume_data" where
  "inject_complementary_skills loaded data role role_skills_map =
     (let job_roles = (case loaded of None \<Rightarrow> [] | Some d \<Rightarrow> d);
          candidates = complementary_candidates job_roles role role_skills_map
      in data\<lparr>skills_list :=
                 add_loop 5 candidates (set (map lower (skills_list data))) {} 0 (skills_list data)\<rparr>)"

section \<open>resume_builder.py: scoring, role normalization and the orchestrator\<close>

type_synonym score_fn = "parsed_data \<Rightarrow> string \<Rightarrow> py_error + ats_result"

definition rebuild_and_score ::
  "resume_data \<Rightarrow> string \<Rightarrow> score_fn \<Rightarrow> resume_data \<times> (py_error + ats_result)" where
  "rebuild_and_score data role calculate_ats_score_fn =
     (let data1 = data\<lparr>full_text := build_full_text data\<rparr>
      in (data1, calculate_ats_score_fn (build_parsed_data data1) role))"

definition ROLE_ALIASES :: "(string \<times> string) list" where
  "ROLE_ALIASES =
     [(''backend developer'', ''Software Engineer''),
      (''frontend developer'', ''Web Developer''),
      (''full stack developer'', ''Web Developer''),
      (''devops engineer'', ''Software Engineer''),
      (''cloud engineer'', ''Software Engineer''),
      (''mobile developer'', ''Software Engineer''),
      (''data scientist'', ''Data Analyst'')]"

definition normalize_role :: "job_roles option \<Rightarrow> string \<Rightarrow> string" where
  "normalize_role loaded role =
     (case loaded of
        None \<Rightarrow> role
      | Some job_roles \<Rightarrow>
          (let supported_roles = set (map fst job_roles)
           in if role \<in> supported_roles then role
              else (case map_of ROLE_ALIASES (lower role) of
                      None \<Rightarrow> ''Software Engineer''
                    | Some alias \<Rightarrow>
                        if alias \<noteq> [] \<and> alias \<in> supported_roles then alias
                        else ''Software Engineer'')))"

text \<open>
  Phase 1 of \<open>refine_for_ats\<close>, the loop over \<open>range(max_attempts)\<close>. The loop either returns
  from the function (\<open>Returned\<close>) or is left, by \<open>break\<close> or at its end (\<open>Left\<close>).
\<close>

datatype loop_exit = Returned resume_data ats_result | Left resume_data ats_result

fun critical_phase ::
  "nat \<Rightarrow> score_fn \<Rightarrow> string \<Rightarrow> resume_data \<Rightarrow> ats_result \<Rightarrow> py_error + loop_exit" where
  "critical_phase 0 calculate_ats_score_fn scoring_role data ats = Inr (Left data ats)"
| "critical_phase (Suc attempts) calculate_ats_score_fn scoring_role data ats =
     (case rebuild_and_score (inject_missing_role_skills data ats scoring_role) scoring_role
             calculate_ats_score_fn of
        (data1, Inl e) \<Rightarrow> Inl e
      | (data1, Inr ats1) \<Rightarrow>
          if ats_score ats1 \<ge> 90 then Inr (Returned data1 ats1)
          else if missing_skills ats1 = [] then Inr (Left data1 ats1)
          else critical_phase attempts calculate_ats_score_fn scoring_role data1 ats1)"

definition complementary_phase ::
  "job_roles option \<Rightarrow> score_fn \<Rightarrow> job_roles \<Rightarrow> string \<Rightarrow> resume_data \<Rightarrow> ats_result
     \<Rightarrow> py_error + resume_data \<times> ats_result" where
  "complementary_phase loaded calculate_ats_score_fn role_skills_map scoring_role data ats =
     (if ats_score ats < 90 then
        (case rebuild_and_score
                (inject_complementary_skills loaded data scoring_role role_skills_map)
                scoring_role calculate_ats_score_fn of
           (data1, Inl e) \<Rightarrow> Inl e
         | (data1, Inr ats1) \<Rightarrow> Inr (data1, ats1))
      else Inr (data, ats))"

definition refine_for_ats ::
  "job_roles option \<Rightarrow> resume_data \<Rightarrow> string \<Rightarrow> score_fn \<Rightarrow> job_roles \<Rightarrow> nat
     \<Rightarrow> py_error + resume_data \<times> ats_result" where
  "refine_for_ats loaded data role calculate_ats_score_fn role_skills_map max_attempts =
     (let scoring_role = normalize_role loaded role
      in case rebuild_and_score
                (validate_resume_diversity (enhance_language_quality data) scoring_role)
                scoring_role calculate_ats_score_fn of
           (data1, Inl e) \<Rightarrow> Inl e
         | (data1, Inr ats) \<Rightarrow>
             if ats_score ats \<ge> 90 then Inr (data1, ats)
             else (case critical_phase max_attempts calculate_ats_score_fn scoring_role data1 ats of
                     Inl e \<Rightarrow> Inl e
                   | Inr (Returned data2 ats2) \<Rightarrow> Inr (data2, ats2)
                   | Inr (Left data2 ats2) \<Rightarrow>
                       complementary_phase loaded calculate_ats_score_fn role_skills_map
                         scoring_role data2 ats2))"

section \<open>Example inputs\<close>

text \<open>A catalog, a parsed resume and a resume on which the theorems below are instantiated.\<close>

definition example_roles :: job_roles where
  "example_roles =
     [(''Web Developer'', [''html'', ''css'', ''javascript'', ''react'']),
      (''Data Analyst'', [''python'', ''sql'', ''pandas'', ''statistics'']),
      (''ML Engineer'', [''python'', ''machine learning'', ''numpy'']),
      (''Software Engineer'', [''data structures'', ''algorithms'', ''java'', ''c++'', ''oop'',
          ''system design'', ''testing'', ''debugging''])]"

definition example_parsed :: parsed_data where
  "example_parsed = \<lparr>pd_name = ''Ada Lovelace'', pd_email = ''ada@example.org'', pd_phone = ''5550100123'',
      pd_skills = [''Python'', ''SQL'', ''Excel''], pd_text = ''''\<rparr>"


definition example_resume :: resume_data where
  "example_resume =
     \<lparr>name = ''Ada Lovelace'', email = ''ada@example.org'', phone = ''5550100123'',
      linkedin = '''', github = '''', portfolio = '''',
      career_objective = ''Build dependable software for analytical engines'',
      target_role = ''Software Engineer'',
      education = [\<lparr>edu_degree = ''BSc Mathematics'', edu_institution = ''London'', edu_year = ''1835''\<rparr>],
      experience = [\<lparr>exp_title = ''Programmer'', exp_company = ''Analytical Engines'',
                      exp_duration = ''1842-1843'',
                      exp_bullets = [''worked on the billing API'']\<rparr>],
      projects = [\<lparr>proj_name = ''Notes'', proj_tech = ''Paper'',
                    proj_bullets = [''Built an index of the notes'']\<rparr>],
      skills_list = [''Excel'', ''Word'', ''PowerPoint''],
      certifications = '''', certifications_list = [],
      achievements = '''', achievements_list = [],
      full_text = ''''\<rparr>"

definition vague_resume :: resume_data where
  "vague_resume =
     example_resume\<lparr>projects := [\<lparr>proj_name = ''Notes'', proj_tech = ''Paper'',
                    proj_bullets = [''Built a cache, improving efficiency'']\<rparr>]\<rparr>"

definition strong_resume :: resume_data where
  "strong_resume =
     example_resume\<lparr>skills_list := [''Python'', ''Machine Learning'', ''NumPy'', ''Pandas'', ''SQL'',
        ''Git'', ''Docker'', ''Linux'', ''Statistics'', ''Deep Learning'', ''TensorFlow'', ''PyTorch'']\<rparr>"

definition stale_resume :: resume_data where
  "stale_resume = example_resume\<lparr>skills_list := [''Python'', ''Excel'', ''Word'']\<rparr>"

definition stale_result :: ats_result where
  "stale_result =
     \<lparr>ats_score = 26, skill_score = 0, keyword_score = 6, completeness_score = 20,
      matched_skills = [], missing_skills = [''python'', ''flask'', ''api''],
      missing_classified = \<lparr>critical = [''python'', ''flask'', ''api''], optional = []\<rparr>\<rparr>"

definition no_target_phrase :: "string \<Rightarrow> bool" where
  "no_target_phrase bullet =
     list_all (\<lambda>phrase. search phrase bullet = None)
       (map fst WEAK_VERB_MAP @ map fst QUANTIFICATION_MAP)"

definition spec_inject_critical :: "resume_data \<Rightarrow> ats_result \<Rightarrow> nat \<Rightarrow> string list" where
  "spec_inject_critical data ats limit =
     skills_list data
     @ take limit (filter (\<lambda>s. lower s \<notin> set (map lower (skills_list data)))
                     (critical (missing_classified ats)))"

(*PROPERTIES*)
section \<open>The classifier\<close>

lemma classify_loop_filter:
  "classify_loop R M crit opt =
     \<lparr>critical = crit @ filter (\<lambda>s. lower s \<in> R) M,
      optional = opt @ filter (\<lambda>s. lower s \<notin> R) M\<rparr>"
  by (induction M arbitrary: crit opt) simp_all

text \<open>
  C6: for every missing-skill list \<open>M\<close> and required-skill list \<open>R\<close>, the critical output is
  the list of the elements of \<open>M\<close> whose lower-cased form is in the lower-cased \<open>R\<close>, in the
  order of \<open>M\<close>; the optional output is the list of the other elements of \<open>M\<close>, in the order
  of \<open>M\<close>; together they hold every element of \<open>M\<close> exactly once, and no element is in both.
\<close>

theorem classify_missing_skills_partition:
  "critical (classify_missing_skills role M R) = filter (\<lambda>s. lower s \<in> set (map lower R)) M
   \<and> optional (classify_missing_skills role M R) = filter (\<lambda>s. lower s \<notin> set (map lower R)) M
   \<and> mset (critical (classify_missing_skills role M R))
       + mset (optional (classify_missing_skills role M R)) = mset M
   \<and> set (critical (classify_missing_skills role M R))
       \<inter> set (optional (classify_missing_skills role M R)) = {}"
  by (auto simp: classify_missing_skills_def classify_loop_filter)

section \<open>The scoring function\<close>

lemma set_py_set: "set (py_set xs) = set xs"
  by (simp add: py_set_def)

lemma distinct_py_set: "distinct (py_set xs)"
  by (simp add: py_set_def)

lemma length_py_set: "length (py_set xs) = card (set xs)"
  by (simp add: py_set_def length_remdups_card_conv)

lemma length_matched:
  "length (filter (\<lambda>s. s \<in> set (py_set ys)) (py_set xs)) = card (set xs \<inter> set ys)"
proof -
  have "length (filter (\<lambda>s. s \<in> set (py_set ys)) (py_set xs))
          = card (set (filter (\<lambda>s. s \<in> set (py_set ys)) (py_set xs)))"
    by (rule distinct_card [symmetric]) (simp add: distinct_py_set)
  also have "set (filter (\<lambda>s. s \<in> set (py_set ys)) (py_set xs)) = set xs \<inter> set ys"
    by (auto simp: set_py_set)
  finally show ?thesis .
qed

lemma calculate_ats_score_Some:
  "\<exists>res. calculate_ats_score (Some job_roles) parsed job_role = Inr res
     \<and> skill_score res =
          skill_score_of
            (card (set (map lower (pd_skills parsed)) \<inter> set (map lower (get_role job_roles job_role))))
            (card (set (map lower (get_role job_roles job_role))))
     \<and> keyword_score res = keyword_score_of (card (set (map lower (pd_skills parsed))))
     \<and> completeness_score res = completeness_of parsed
     \<and> ats_score res = min (skill_score res + keyword_score res + completeness_score res) 100"
  unfolding calculate_ats_score_def Let_def option.case
  by (simp only: length_matched length_py_set ats_result.simps simp_thms sum.inject ex_simps)

text \<open>
  C8: when the catalog has been loaded and the role is absent from it, or its list of
  required skills is empty, scoring returns a result, with skill score 0, the keyword score
  \<open>min(2 * number of distinct lower-cased resume skills, 30)\<close> and the completeness score of
  5 per non-empty field among name, email, phone and skills.
\<close>

theorem calculate_ats_score_catalog_miss:
  assumes "map_of job_roles job_role = None \<or> map_of job_roles job_role = Some []"
  shows "\<exists>res. calculate_ats_score (Some job_roles) parsed job_role = Inr res
           \<and> skill_score res = 0
           \<and> keyword_score res = min (2 * int (card (set (map lower (pd_skills parsed))))) 30
           \<and> completeness_score res =
               (if pd_name parsed \<noteq> [] then 5 else 0) + (if pd_email parsed \<noteq> [] then 5 else 0)
               + (if pd_phone parsed \<noteq> [] then 5 else 0) + (if pd_skills parsed \<noteq> [] then 5 else 0)"
proof -
  from assms have e: "get_role job_roles job_role = []"
    by (auto simp: get_role_def)
  from calculate_ats_score_Some [of job_roles parsed job_role]
  obtain res where r: "calculate_ats_score (Some job_roles) parsed job_role = Inr res"
    and s: "skill_score res =
          skill_score_of
            (card (set (map lower (pd_skills parsed)) \<inter> set (map lower (get_role job_roles job_role))))
            (card (set (map lower (get_role job_roles job_role))))"
    and k: "keyword_score res = keyword_score_of (card (set (map lower (pd_skills parsed))))"
    and c: "completeness_score res = completeness_of parsed"
    by blast
  from s e have "skill_score res = 0" by (simp add: skill_score_of_def)
  moreover from k have "keyword_score res = min (2 * int (card (set (map lower (pd_skills parsed))))) 30"
    by (simp add: keyword_score_of_def mult.commute)
  moreover note r c [unfolded completeness_of_def]
  ultimately show ?thesis by blast
qed

theorem calculate_ats_score_catalog_miss_witness:
  "(map_of example_roles ''Astronaut'' = None \<or> map_of example_roles ''Astronaut'' = Some [])
   \<and> (\<exists>res. calculate_ats_score (Some example_roles) example_parsed ''Astronaut'' = Inr res
           \<and> skill_score res = 0 \<and> keyword_score res = 6 \<and> completeness_score res = 20)"
proof -
  have h: "map_of example_roles ''Astronaut'' = None \<or> map_of example_roles ''Astronaut'' = Some []"
    by (simp add: example_roles_def)
  have c: "card (set (map lower (pd_skills example_parsed))) = 3"
    by (simp add: example_parsed_def lower_def lower_char_def)
  from calculate_ats_score_catalog_miss [OF h, of example_parsed]
  obtain res where r: "calculate_ats_score (Some example_roles) example_parsed ''Astronaut'' = Inr res"
    and s: "skill_score res = 0"
    and k: "keyword_score res = min (2 * int (card (set (map lower (pd_skills example_parsed))))) 30"
    and m: "completeness_score res =
               (if pd_name example_parsed \<noteq> [] then 5 else 0) + (if pd_email example_parsed \<noteq> [] then 5 else 0)
               + (if pd_phone example_parsed \<noteq> [] then 5 else 0) + (if pd_skills example_parsed \<noteq> [] then 5 else 0)"
    by blast
  from k c have k': "keyword_score res = 6" by simp
  from m have m': "completeness_score res = 20" by (simp add: example_parsed_def)
  from h r s k' m' show ?thesis by blast
qed

section \<open>Role normalization\<close>

lemma ROLE_ALIASES_nonempty: "map_of ROLE_ALIASES k = Some alias \<Longrightarrow> alias \<noteq> []"
  by (auto simp: ROLE_ALIASES_def split: if_splits)

lemma frontend_alias: "map_of ROLE_ALIASES (lower ''Frontend Developer'') = Some ''Web Developer''"
  by (simp add: ROLE_ALIASES_def lower_def lower_char_def)

text \<open>
  C5: with a loaded catalog that contains the default role \<open>Software Engineer\<close>, the
  normalizer returns a role of the catalog: the input when it is a role of the catalog,
  otherwise the alias of its lower-cased form when that alias is a role of the catalog,
  otherwise the default role. \<open>Frontend Developer\<close> is normalized to \<open>Web Developer\<close> when the
  catalog has that role and no role \<open>Frontend Developer\<close>.
\<close>

theorem normalize_role_in_catalog:
  assumes "''Software Engineer'' \<in> set (map fst job_roles)"
  shows "normalize_role (Some job_roles) role \<in> set (map fst job_roles)
    \<and> (role \<in> set (map fst job_roles) \<longrightarrow> normalize_role (Some job_roles) role = role)
    \<and> (\<forall>alias. role \<notin> set (map fst job_roles) \<and> map_of ROLE_ALIASES (lower role) = Some alias
           \<and> alias \<in> set (map fst job_roles) \<longrightarrow> normalize_role (Some job_roles) role = alias)
    \<and> (role \<notin> set (map fst job_roles)
           \<and> (\<forall>alias. map_of ROLE_ALIASES (lower role) = Some alias \<longrightarrow> alias \<notin> set (map fst job_roles))
           \<longrightarrow> normalize_role (Some job_roles) role = ''Software Engineer'')
    \<and> (''Web Developer'' \<in> set (map fst job_roles) \<and> ''Frontend Developer'' \<notin> set (map fst job_roles)
           \<longrightarrow> normalize_role (Some job_roles) ''Frontend Developer'' = ''Web Developer'')"
proof -
  have cat: "normalize_role (Some job_roles) role \<in> set (map fst job_roles)"
    using assms by (simp add: normalize_role_def split: option.splits)
  have verbatim: "role \<in> set (map fst job_roles) \<longrightarrow> normalize_role (Some job_roles) role = role"
    by (simp add: normalize_role_def)
  have aliased: "\<forall>alias. role \<notin> set (map fst job_roles) \<and> map_of ROLE_ALIASES (lower role) = Some alias
           \<and> alias \<in> set (map fst job_roles) \<longrightarrow> normalize_role (Some job_roles) role = alias"
    using ROLE_ALIASES_nonempty by (auto simp: normalize_role_def)
  have fallback: "role \<notin> set (map fst job_roles)
           \<and> (\<forall>alias. map_of ROLE_ALIASES (lower role) = Some alias \<longrightarrow> alias \<notin> set (map fst job_roles))
           \<longrightarrow> normalize_role (Some job_roles) role = ''Software Engineer''"
    by (simp add: normalize_role_def split: option.splits)
  have frontend: "''Web Developer'' \<in> set (map fst job_roles) \<and> ''Frontend Developer'' \<notin> set (map fst job_roles)
           \<longrightarrow> normalize_role (Some job_roles) ''Frontend Developer'' = ''Web Developer''"
    by (simp add: normalize_role_def frontend_alias)
  from cat verbatim aliased fallback frontend show ?thesis by blast
qed

theorem normalize_role_in_catalog_witness:
  "''Software Engineer'' \<in> set (map fst example_roles)
   \<and> ''Web Developer'' \<in> set (map fst example_roles)
   \<and> ''Frontend Developer'' \<notin> set (map fst example_roles)
   \<and> normalize_role (Some example_roles) ''Frontend Developer'' = ''Web Developer''
   \<and> normalize_role (Some example_roles) ''Data Analyst'' = ''Data Analyst''
   \<and> normalize_role (Some example_roles) ''Astronaut'' \<in> set (map fst example_roles)"
proof -
  have h: "''Software Engineer'' \<in> set (map fst example_roles)" by (simp add: example_roles_def)
  have w: "''Web Developer'' \<in> set (map fst example_roles)" by (simp add: example_roles_def)
  have f: "''Frontend Developer'' \<notin> set (map fst example_roles)" by (simp add: example_roles_def)
  have d: "''Data Analyst'' \<in> set (map fst example_roles)" by (simp add: example_roles_def)
  from normalize_role_in_catalog [OF h, of "''Frontend Developer''"] w f
  have 1: "normalize_role (Some example_roles) ''Frontend Developer'' = ''Web Developer''" by blast
  from normalize_role_in_catalog [OF h, of "''Data Analyst''"] d
  have 2: "normalize_role (Some example_roles) ''Data Analyst'' = ''Data Analyst''" by blast
  from normalize_role_in_catalog [OF h, of "''Astronaut''"]
  have 3: "normalize_role (Some example_roles) ''Astronaut'' \<in> set (map fst example_roles)" by blast
  from h w f 1 2 3 show ?thesis by blast
qed

text \<open>
  C10: the verbatim test of the normalizer compares with case: a role name that differs from
  a role of the catalog in the case of its letters only, and whose lower-cased form is no
  alias, is normalized to \<open>Software Engineer\<close>, as \<open>ml engineer\<close> is for a catalog with the
  role \<open>ML Engineer\<close>.
\<close>

theorem normalize_role_case_sensitive:
  assumes "catalog_role \<in> set (map fst job_roles)"
    and "lower role = lower catalog_role"
    and "role \<notin> set (map fst job_roles)"
    and "map_of ROLE_ALIASES (lower role) = None"
  shows "normalize_role (Some job_roles) role = ''Software Engineer''"
  using assms by (simp add: normalize_role_def)

theorem normalize_role_case_sensitive_witness:
  "''ML Engineer'' \<in> set (map fst example_roles)
   \<and> lower ''ml engineer'' = lower ''ML Engineer''
   \<and> ''ml engineer'' \<notin> set (map fst example_roles)
   \<and> map_of ROLE_ALIASES (lower ''ml engineer'') = None
   \<and> normalize_role (Some example_roles) ''ml engineer'' = ''Software Engineer''"
proof -
  have 1: "''ML Engineer'' \<in> set (map fst example_roles)" by (simp add: example_roles_def)
  have 2: "lower ''ml engineer'' = lower ''ML Engineer''" by (simp add: lower_def lower_char_def)
  have 3: "''ml engineer'' \<notin> set (map fst example_roles)" by (simp add: example_roles_def)
  have 4: "map_of ROLE_ALIASES (lower ''ml engineer'') = None"
    by (simp add: ROLE_ALIASES_def lower_def lower_char_def)
  show ?thesis
    using 1 2 3 4 normalize_role_case_sensitive [OF 1 2 3 4] by simp
qed

section \<open>Characters\<close>

text \<open>
  The tables of \<open>lower_char\<close> and \<open>upper_char\<close>, read on the bits of a character: \<open>A\<close> to \<open>Z\<close>
  are the codes 65 to 90 and \<open>a\<close> to \<open>z\<close> the codes 97 to 122, which differ in bit 5.
\<close>

lemma lower_char_Char [code]:
  "lower_char (Char b0 b1 b2 b3 b4 b5 b6 b7) =
     (if b6 \<and> \<not> b5 \<and> \<not> b7 \<and> (b0 \<or> b1 \<or> b2 \<or> b3 \<or> b4) \<and> \<not> (b4 \<and> b3 \<and> (b2 \<or> (b1 \<and> b0)))
      then Char b0 b1 b2 b3 b4 True b6 b7 else Char b0 b1 b2 b3 b4 b5 b6 b7)"
  by (cases b7; cases b6; cases b5; simp add: lower_char_def;
      cases b0; cases b1; cases b2; cases b3; cases b4; simp)

lemma upper_char_Char [code]:
  "upper_char (Char b0 b1 b2 b3 b4 b5 b6 b7) =
     (if b6 \<and> b5 \<and> \<not> b7 \<and> (b0 \<or> b1 \<or> b2 \<or> b3 \<or> b4) \<and> \<not> (b4 \<and> b3 \<and> (b2 \<or> (b1 \<and> b0)))
      then Char b0 b1 b2 b3 b4 False b6 b7 else Char b0 b1 b2 b3 b4 b5 b6 b7)"
  by (cases b7; cases b6; cases b5; simp add: upper_char_def;
      cases b0; cases b1; cases b2; cases b3; cases b4; simp)

section \<open>Language quality\<close>

lemma fold_upgrade_verb_id:
  "list_all (\<lambda>phrase. search phrase b = None) (map fst table) \<Longrightarrow> fold upgrade_verb table b = b"
  by (induction table) (auto simp: upgrade_verb_def)

lemma fold_quantify_id:
  "list_all (\<lambda>phrase. search phrase b = None) (map fst table) \<Longrightarrow> fold quantify table b = b"
  by (induction table) (auto simp: quantify_def)

lemma enhance_single_bullet_id:
  "no_target_phrase b \<Longrightarrow> enhance_single_bullet b = b"
  by (simp add: no_target_phrase_def enhance_single_bullet_def fold_upgrade_verb_id fold_quantify_id)

text \<open>
  C2, as stated, fails: the replacement of a vague phrase may contain the phrase itself,
  so a second pass appends the quantification once more. For the bullet
  \<open>Built a cache, improving efficiency\<close> the first pass gives
  \<open>Built a cache, improving efficiency by 30%\<close> and the second
  \<open>Built a cache, improving efficiency by 30% by 30%\<close>.
\<close>

theorem enhance_language_quality_twice_counterexample:
  "enhance_language_quality (enhance_language_quality vague_resume)
     \<noteq> enhance_language_quality vague_resume"
  by code_simp

text \<open>
  C2, amended: when no bullet, once polished, contains a weak phrase or a vague phrase of
  the two tables (letters compared without case), polishing the resume twice gives the same
  resume as polishing it once.
\<close>

theorem enhance_language_quality_idempotent_when_clean:
  assumes "\<forall>entry \<in> set (experience data). \<forall>b \<in> set (exp_bullets entry).
             no_target_phrase (enhance_single_bullet b)"
    and "\<forall>entry \<in> set (projects data). \<forall>b \<in> set (proj_bullets entry).
             no_target_phrase (enhance_single_bullet b)"
  shows "enhance_language_quality (enhance_language_quality data) = enhance_language_quality data"
proof -
  have e: "map (\<lambda>entry. entry\<lparr>exp_bullets := map enhance_single_bullet (exp_bullets entry)\<rparr>)
             (map (\<lambda>entry. entry\<lparr>exp_bullets := map enhance_single_bullet (exp_bullets entry)\<rparr>)
                (experience data))
           = map (\<lambda>entry. entry\<lparr>exp_bullets := map enhance_single_bullet (exp_bullets entry)\<rparr>)
               (experience data)"
    using assms(1) by (auto simp: enhance_single_bullet_id)
  have p: "map (\<lambda>entry. entry\<lparr>proj_bullets := map enhance_single_bullet (proj_bullets entry)\<rparr>)
             (map (\<lambda>entry. entry\<lparr>proj_bullets := map enhance_single_bullet (proj_bullets entry)\<rparr>)
                (projects data))
           = map (\<lambda>entry. entry\<lparr>proj_bullets := map enhance_single_bullet (proj_bullets entry)\<rparr>)
               (projects data)"
    using assms(2) by (auto simp: enhance_single_bullet_id)
  show ?thesis
    unfolding enhance_language_quality_def using e p by simp
qed

theorem enhance_language_quality_idempotent_when_clean_witness:
  "no_target_phrase (enhance_single_bullet ''worked on the billing API'')
   \<and> no_target_phrase (enhance_single_bullet ''Built an index of the notes'')
   \<and> map exp_bullets (experience example_resume) = [[''worked on the billing API'']]
   \<and> map proj_bullets (projects example_resume) = [[''Built an index of the notes'']]
   \<and> map exp_bullets (experience (enhance_language_quality example_resume))
        = [[''Engineered the billing API'']]
   \<and> enhance_language_quality (enhance_language_quality example_resume)
        = enhance_language_quality example_resume"
proof -
  have a: "no_target_phrase (enhance_single_bullet ''worked on the billing API'')"
    by code_simp
  have b: "no_target_phrase (enhance_single_bullet ''Built an index of the notes'')"
    by code_simp
  have 1: "\<forall>entry \<in> set (experience example_resume). \<forall>b \<in> set (exp_bullets entry).
             no_target_phrase (enhance_single_bullet b)"
    using a by (simp add: example_resume_def)
  have 2: "\<forall>entry \<in> set (projects example_resume). \<forall>b \<in> set (proj_bullets entry).
             no_target_phrase (enhance_single_bullet b)"
    using b by (simp add: example_resume_def)
  have 3: "map exp_bullets (experience (enhance_language_quality example_resume))
        = [[''Engineered the billing API'']]"
    by code_simp
  have 4: "map exp_bullets (experience example_resume) = [[''worked on the billing API'']]"
    by (simp add: example_resume_def)
  have 5: "map proj_bullets (projects example_resume) = [[''Built an index of the notes'']]"
    by (simp add: example_resume_def)
  from a b 3 4 5 enhance_language_quality_idempotent_when_clean [OF 1 2] show ?thesis by blast
qed

section \<open>Critical skill injection\<close>

lemma skills_list_inject_one: "skills_list (inject_one i s data) = skills_list data @ [s]"
  by (simp add: inject_one_def Let_def)

text \<open>
  C4, as stated, fails: the injector takes the first two entries of \<open>missing_skills\<close> and
  then skips those already present; it does not look further for absent ones. With the
  skills \<open>Python, Excel, Word\<close> and the missing skills \<open>python, flask, api\<close> it appends
  \<open>flask\<close> only, where the claim has \<open>flask\<close> and \<open>api\<close> appended.
\<close>

theorem inject_missing_role_skills_counterexample:
  "skills_list (inject_missing_role_skills stale_resume stale_result ''Backend Developer'')
     \<noteq> spec_inject_critical stale_resume stale_result 2"
  by code_simp

text \<open>
  C4, amended: one call appends to the skills list, in order, those of the first two entries
  of the score result's \<open>missing_skills\<close> that are not present in the skills list, letters
  compared without case, the second one only if it differs from the first without case. When
  neither of the first two entries is present and they differ without case, exactly these
  entries are appended.
\<close>

theorem inject_missing_role_skills_appends:
  "skills_list (inject_missing_role_skills data ats role) =
     skills_list data
     @ filter (\<lambda>s. lower s \<notin> set (map lower (skills_list data)))
         (case take 2 (missing_skills ats) of
            [a, b] \<Rightarrow> if lower a = lower b then [a] else [a, b]
          | first \<Rightarrow> first)
   \<and> ((\<forall>s \<in> set (take 2 (missing_skills ats)). lower s \<notin> set (map lower (skills_list data)))
        \<and> distinct (map lower (take 2 (missing_skills ats)))
      \<longrightarrow> skills_list (inject_missing_role_skills data ats role)
            = skills_list data @ take 2 (missing_skills ats))"
proof (cases "missing_skills ats")
  case Nil
  then show ?thesis by (simp add: inject_missing_role_skills_def)
next
  case (Cons a rest)
  show ?thesis
  proof (cases rest)
    case Nil
    with Cons show ?thesis
      by (simp add: inject_missing_role_skills_def skills_list_inject_one)
  next
    case (Cons b rest')
    with \<open>missing_skills ats = a # rest\<close> show ?thesis
      by (auto simp: inject_missing_role_skills_def skills_list_inject_one)
  qed
qed

theorem inject_missing_role_skills_appends_witness:
  "take 2 (missing_skills stale_result) = [''python'', ''flask'']
   \<and> map lower (skills_list example_resume) = [''excel'', ''word'', ''powerpoint'']
   \<and> map lower [''python'', ''flask''] = [''python'', ''flask'']
   \<and> skills_list (inject_missing_role_skills example_resume stale_result ''Backend Developer'')
       = [''Excel'', ''Word'', ''PowerPoint'', ''python'', ''flask'']
   \<and> skills_list (inject_missing_role_skills stale_resume stale_result ''Backend Developer'')
       = [''Python'', ''Excel'', ''Word'', ''flask'']"
proof -
  have m: "take 2 (missing_skills stale_result) = [''python'', ''flask'']"
    by (simp add: stale_result_def)
  have l: "map lower (skills_list example_resume) = [''excel'', ''word'', ''powerpoint'']"
    by code_simp
  have l': "map lower [''python'', ''flask''] = [''python'', ''flask'']"
    by code_simp
  have 1: "\<forall>s \<in> set (take 2 (missing_skills stale_result)). lower s \<notin> set (map lower (skills_list example_resume))"
    using l l' unfolding m by simp
  have 2: "distinct (map lower (take 2 (missing_skills stale_result)))"
    using l' unfolding m by simp
  have 3: "skills_list example_resume @ take 2 (missing_skills stale_result)
            = [''Excel'', ''Word'', ''PowerPoint'', ''python'', ''flask'']"
    unfolding m by (simp add: example_resume_def)
  have 4: "skills_list stale_resume
     @ filter (\<lambda>s. lower s \<notin> set (map lower (skills_list stale_resume)))
         (case take 2 (missing_skills stale_result) of
            [a, b] \<Rightarrow> if lower a = lower b then [a] else [a, b]
          | first \<Rightarrow> first) = [''Python'', ''Excel'', ''Word'', ''flask'']"
    by code_simp
  from inject_missing_role_skills_appends [of example_resume stale_result "''Backend Developer''"] 1 2
  have "skills_list (inject_missing_role_skills example_resume stale_result ''Backend Developer'')
       = skills_list example_resume @ take 2 (missing_skills stale_result)"
    by blast
  with 3 have 5: "skills_list (inject_missing_role_skills example_resume stale_result ''Backend Developer'')
       = [''Excel'', ''Word'', ''PowerPoint'', ''python'', ''flask'']"
    by simp
  from inject_missing_role_skills_appends [of stale_resume stale_result "''Backend Developer''"]
  have "skills_list (inject_missing_role_skills stale_resume stale_result ''Backend Developer'')
       = skills_list stale_resume
     @ filter (\<lambda>s. lower s \<notin> set (map lower (skills_list stale_resume)))
         (case take 2 (missing_skills stale_result) of
            [a, b] \<Rightarrow> if lower a = lower b then [a] else [a, b]
          | first \<Rightarrow> first)"
    by (rule conjunct1)
  with 4 have 6: "skills_list (inject_missing_role_skills stale_resume stale_result ''Backend Developer'')
       = [''Python'', ''Excel'', ''Word'', ''flask'']"
    by simp
  from m l l' 5 6 show ?thesis by blast
qed

section \<open>The orchestrator\<close>

text \<open>
  C9: if the scoring function returns a score of at least 90 for the resume as polished and
  diversified, the orchestrator returns that score result and that resume: its skills list
  is the one the diversity stage left and its experience and project entries, with their
  bullets, are the ones the polish stage left.
\<close>

theorem refine_for_ats_early_exit:
  assumes "calculate_ats_score_fn
             (build_parsed_data
                ((validate_resume_diversity (enhance_language_quality data) (normalize_role loaded role))
                   \<lparr>full_text := build_full_text
                      (validate_resume_diversity (enhance_language_quality data) (normalize_role loaded role))\<rparr>))
             (normalize_role loaded role) = Inr ats"
    and "90 \<le> ats_score ats"
  shows "\<exists>data1. refine_for_ats loaded data role calculate_ats_score_fn role_skills_map max_attempts
                    = Inr (data1, ats)
           \<and> skills_list data1
               = skills_list (validate_resume_diversity (enhance_language_quality data)
                                (normalize_role loaded role))
           \<and> experience data1 = experience (enhance_language_quality data)
           \<and> projects data1 = projects (enhance_language_quality data)"
  using assms
  by (simp add: refine_for_ats_def rebuild_and_score_def Let_def validate_resume_diversity_def)

lemma strong_score:
  "map_sum id ats_score
     (calculate_ats_score (Some example_roles)
             (build_parsed_data
                ((validate_resume_diversity (enhance_language_quality strong_resume)
                     (normalize_role (Some example_roles) ''ML Engineer''))
                   \<lparr>full_text := build_full_text
                      (validate_resume_diversity (enhance_language_quality strong_resume)
                         (normalize_role (Some example_roles) ''ML Engineer''))\<rparr>))
             (normalize_role (Some example_roles) ''ML Engineer'')) = Inr 94"
  by code_simp

theorem refine_for_ats_early_exit_witness:
  "\<exists>ats data1.
      calculate_ats_score (Some example_roles)
             (build_parsed_data
                ((validate_resume_diversity (enhance_language_quality strong_resume)
                     (normalize_role (Some example_roles) ''ML Engineer''))
                   \<lparr>full_text := build_full_text
                      (validate_resume_diversity (enhance_language_quality strong_resume)
                         (normalize_role (Some example_roles) ''ML Engineer''))\<rparr>))
             (normalize_role (Some example_roles) ''ML Engineer'') = Inr ats
      \<and> 90 \<le> ats_score ats
      \<and> refine_for_ats (Some example_roles) strong_resume ''ML Engineer''
           (calculate_ats_score (Some example_roles)) ROLE_SKILLS 2 = Inr (data1, ats)
      \<and> skills_list data1 = skills_list strong_resume
      \<and> map exp_bullets (experience data1) = [[''Engineered the billing API'']]"
proof -
  from strong_score obtain ats where
    a: "calculate_ats_score (Some example_roles)
             (build_parsed_data
                ((validate_resume_diversity (enhance_language_quality strong_resume)
                     (normalize_role (Some example_roles) ''ML Engineer''))
                   \<lparr>full_text := build_full_text
                      (validate_resume_diversity (enhance_language_quality strong_resume)
                         (normalize_role (Some example_roles) ''ML Engineer''))\<rparr>))
             (normalize_role (Some example_roles) ''ML Engineer'') = Inr ats"
    and s: "ats_score ats = 94"
    by (auto simp: map_sum_def split: sum.splits)
  from s have g: "90 \<le> ats_score ats" by simp
  have k: "skills_list (validate_resume_diversity (enhance_language_quality strong_resume)
                                (normalize_role (Some example_roles) ''ML Engineer''))
            = skills_list strong_resume"
    by code_simp
  have b: "map exp_bullets (experience (enhance_language_quality strong_resume))
             = [[''Engineered the billing API'']]"
    by code_simp
  from refine_for_ats_early_exit [where calculate_ats_score_fn = "calculate_ats_score (Some example_roles)"
      and loaded = "Some example_roles" and data = strong_resume and role = "''ML Engineer''"
      and ats = ats and role_skills_map = ROLE_SKILLS and max_attempts = 2, OF a g]
  obtain data1 where "refine_for_ats (Some example_roles) strong_resume ''ML Engineer''
           (calculate_ats_score (Some example_roles)) ROLE_SKILLS 2 = Inr (data1, ats)"
    and "skills_list data1
               = skills_list (validate_resume_diversity (enhance_language_quality strong_resume)
                                (normalize_role (Some example_roles) ''ML Engineer''))"
    and "experience data1 = experience (enhance_language_quality strong_resume)"
    by blast
  with k b a g show ?thesis
    by auto
qed

end
